theory Spec2Isabelle
  imports Main "HOL-Library.FSet"
begin

section \<open>Data model of \<^verbatim>\<open>bot.py\<close>\<close>

text \<open>
  Exceptions raised by the calls of the platform client and of the Python runtime.
  Every constructor is an instance of Python's \<^verbatim>\<open>Exception\<close>; the login code
  tells \<^verbatim>\<open>ChallengeRequired\<close> from the rest. The argument is the message
  \<^verbatim>\<open>str(e)\<close>. The asynchronous operator interrupt (\<^verbatim>\<open>KeyboardInterrupt\<close>),
  which no call raises by itself, is outside this model.
\<close>

datatype exn = ChallengeRequired string | ValueError string | Exception string

text \<open>
  A \<^verbatim>\<open>datetime\<close>: the wall-clock reading in microseconds since the epoch, and the
  UTC offset of its \<^verbatim>\<open>tzinfo\<close> in microseconds (\<open>None\<close> for a naive value).
\<close>

record datetime =
  wall :: int
  tzinfo :: "int option"

text \<open>\<^verbatim>\<open>message_time.replace(tzinfo=datetime.timezone.utc)\<close> when the value is naive.\<close>

definition normalize :: "datetime \<Rightarrow> datetime" where
  "normalize message_time =
     (if tzinfo message_time = None then message_time\<lparr>tzinfo := Some 0\<rparr> else message_time)"

text \<open>The instant of an aware value, in microseconds of UTC.\<close>

definition utc_instant :: "datetime \<Rightarrow> int" where
  "utc_instant d = wall d - (case tzinfo d of None \<Rightarrow> 0 | Some off \<Rightarrow> off)"

text \<open>
  \<^verbatim>\<open>(current_time - message_time)\<close> as a number of microseconds; \<open>current_time\<close> is
  the UTC instant of \<^verbatim>\<open>datetime.now(timezone.utc)\<close>. \<^verbatim>\<open>total_seconds()\<close> divides this
  integer by \<open>10^6\<close>, so \<^verbatim>\<open>time_diff > 300\<close> holds exactly when the
  microseconds exceed \<open>300 * 10^6\<close>.
\<close>

definition time_diff_us :: "int \<Rightarrow> datetime \<Rightarrow> int" where
  "time_diff_us current_time message_time = current_time - utc_instant (normalize message_time)"

definition older_than_5_minutes :: "int \<Rightarrow> datetime \<Rightarrow> bool" where
  "older_than_5_minutes current_time message_time \<longleftrightarrow>
     time_diff_us current_time message_time > 300 * 1000000"

record ('u, 'm) message =
  message_id :: 'm
  user_id :: 'u
  text_of :: string
  timestamp :: datetime

text \<open>
  The fields of \<^verbatim>\<open>InstagramBot\<close>. Of the platform client the bot holds, the model keeps
  the logged-in user's id (\<^verbatim>\<open>self.client.user_id\<close>) and the list of the
  \<^verbatim>\<open>direct_send\<close> calls that returned, oldest first. \<^verbatim>\<open>processed_messages\<close> is a
  Python \<^verbatim>\<open>set\<close>: finite and without order.
\<close>

record ('u, 'm) bot =
  username :: string
  password :: string
  target_username :: string
  response_message :: string
  target_user_id :: "'u option"
  thread_id :: "string option"
  processed_messages :: "'m fset"
  client_user_id :: "'u option"
  client_sent :: "(string \<times> 'u option list) list"

text \<open>\<^verbatim>\<open>InstagramBot.__init__\<close>.\<close>

definition init_bot :: "string \<Rightarrow> string \<Rightarrow> string \<Rightarrow> string \<Rightarrow> ('u, 'm) bot" where
  "init_bot u p t r =
     \<lparr>username = u, password = p, target_username = t, response_message = r,
      target_user_id = None, thread_id = None, processed_messages = {||},
      client_user_id = None, client_sent = []\<rparr>"

section \<open>The loop body of \<^verbatim>\<open>check_and_respond\<close>\<close>

text \<open>
  The branch a message takes, in the words of the response policy: replied to, skipped
  without any change, or marked as processed without a reply.
\<close>

datatype decision = Reply | Ignore | MarkSeenOnly

text \<open>Python's \<^verbatim>\<open>xs[-n:]\<close> for positive \<open>n\<close>.\<close>

definition last_n :: "nat \<Rightarrow> 'a list \<Rightarrow> 'a list" where
  "last_n n xs = drop (length xs - n) xs"

text \<open>
  Lines 213-215. \<^verbatim>\<open>list(s)\<close> enumerates a set in the iteration order of the hash
  table, which the language does not fix; it is the parameter \<open>set_list\<close>.
\<close>

definition trim :: "('m fset \<Rightarrow> 'm list) \<Rightarrow> 'm fset \<Rightarrow> 'm fset" where
  "trim set_list s = (if fcard s > 100 then fset_of_list (last_n 100 (set_list s)) else s)"

definition mark_processed :: "'m \<Rightarrow> ('u, 'm) bot \<Rightarrow> ('u, 'm) bot" where
  "mark_processed mid b = b\<lparr>processed_messages := finsert mid (processed_messages b)\<rparr>"

text \<open>
  Lines 176-215 for one message. Whether the platform's \<^verbatim>\<open>direct_send\<close> raises is
  decided by the platform: \<open>direct_send sent text recipients\<close> is \<open>Some e\<close> when the
  call raises \<open>e\<close>, given the sends made so far. The result is the state after the body,
  with the exception that left it or the branch taken.
\<close>

definition process_message ::
  "((string \<times> 'u option list) list \<Rightarrow> string \<Rightarrow> 'u option list \<Rightarrow> exn option) \<Rightarrow>
   ('m fset \<Rightarrow> 'm list) \<Rightarrow> int \<Rightarrow> ('u, 'm) bot \<Rightarrow> ('u, 'm) message \<Rightarrow>
   (exn + decision) \<times> ('u, 'm) bot" where
  "process_message direct_send set_list current_time b m =
     (if message_id m |\<in>| processed_messages b then (Inr Ignore, b)
      else if Some (user_id m) = client_user_id b then
        (Inr MarkSeenOnly, mark_processed (message_id m) b)
      else if Some (user_id m) = target_user_id b then
        (if older_than_5_minutes current_time (timestamp m) then
           (Inr MarkSeenOnly, mark_processed (message_id m) b)
         else
           (case direct_send (client_sent b) (response_message b) [target_user_id b] of
              Some e \<Rightarrow> (Inl e, b)
            | None \<Rightarrow>
                (let b1 = b\<lparr>client_sent :=
                             client_sent b @ [(response_message b, [target_user_id b])]\<rparr>;
                     b2 = mark_processed (message_id m) b1
                 in (Inr Reply,
                     b2\<lparr>processed_messages := trim set_list (processed_messages b2)\<rparr>))))
      else (Inr Ignore, b))"

text \<open>
  The \<^verbatim>\<open>for message in messages\<close> loop. An exception leaves the loop at once; the
  changes made for the earlier messages stay, since the bot is mutated in place.
\<close>

fun process_messages ::
  "((string \<times> 'u option list) list \<Rightarrow> string \<Rightarrow> 'u option list \<Rightarrow> exn option) \<Rightarrow>
   ('m fset \<Rightarrow> 'm list) \<Rightarrow> int \<Rightarrow> ('u, 'm) bot \<Rightarrow> ('u, 'm) message list \<Rightarrow>
   exn option \<times> ('u, 'm) bot" where
  "process_messages direct_send set_list current_time b [] = (None, b)"
| "process_messages direct_send set_list current_time b (m # ms) =
     (case process_message direct_send set_list current_time b m of
        (Inl e, b') \<Rightarrow> (Some e, b')
      | (Inr d, b') \<Rightarrow> process_messages direct_send set_list current_time b' ms)"

text \<open>\<^verbatim>\<open>not self.thread_id\<close>: \<^verbatim>\<open>None\<close> and the empty string are false.\<close>

definition no_thread_id :: "('u, 'm) bot \<Rightarrow> bool" where
  "no_thread_id b \<longleftrightarrow> thread_id b = None \<or> thread_id b = Some []"

text \<open>What \<^verbatim>\<open>check_and_respond\<close> writes to the log.\<close>

datatype log_entry = NoThreadId | ErrorCheckingMessages exn

text \<open>
  \<^verbatim>\<open>check_and_respond\<close>. \<open>direct_thread\<close> is the platform's fetch of a thread's
  messages, which may raise. The handler of line 217 takes every exception, so the
  function returns; the result type still has the case of an exception leaving it.
\<close>

definition check_and_respond ::
  "(string \<Rightarrow> exn + ('u, 'm) message list) \<Rightarrow>
   ((string \<times> 'u option list) list \<Rightarrow> string \<Rightarrow> 'u option list \<Rightarrow> exn option) \<Rightarrow>
   ('m fset \<Rightarrow> 'm list) \<Rightarrow> int \<Rightarrow> ('u, 'm) bot \<Rightarrow>
   exn + (log_entry list \<times> ('u, 'm) bot)" where
  "check_and_respond direct_thread direct_send set_list current_time b =
     (if no_thread_id b then Inr ([NoThreadId], b)
      else
        (case direct_thread (the (thread_id b)) of
           Inl e \<Rightarrow> Inr ([ErrorCheckingMessages e], b)
         | Inr messages \<Rightarrow>
             (case process_messages direct_send set_list current_time b messages of
                (Some e, b') \<Rightarrow> Inr ([ErrorCheckingMessages e], b')
              | (None, b') \<Rightarrow> Inr ([], b'))))"

section \<open>Thread resolution\<close>

record ('u) direct_thread =
  id_of :: string
  users :: "'u list"

text \<open>Lines 137-140: the first thread, in the order returned, one of whose users is the target.\<close>

fun find_thread :: "'u option \<Rightarrow> 'u direct_thread list \<Rightarrow> 'u direct_thread option" where
  "find_thread target [] = None"
| "find_thread target (t # ts) =
     (if list_ex (\<lambda>pk. Some pk = target) (users t) then Some t else find_thread target ts)"

text \<open>Lines 147-148.\<close>

fun mark_existing :: "('u, 'm) message list \<Rightarrow> ('u, 'm) bot \<Rightarrow> ('u, 'm) bot" where
  "mark_existing [] b = b"
| "mark_existing (msg # msgs) b = mark_existing msgs (mark_processed (message_id msg) b)"

text \<open>
  \<^verbatim>\<open>get_thread_id\<close>. \<open>direct_threads amount\<close> lists the most recent threads and
  \<open>direct_thread\<close> fetches one thread's messages; both may raise. \<^verbatim>\<open>self.thread_id\<close> is
  assigned before the messages are fetched, and it stays assigned when that fetch raises.
\<close>

definition get_thread_id ::
  "(nat \<Rightarrow> exn + 'u direct_thread list) \<Rightarrow> (string \<Rightarrow> exn + ('u, 'm) message list) \<Rightarrow>
   ('u, 'm) bot \<Rightarrow> bool \<times> ('u, 'm) bot" where
  "get_thread_id direct_threads direct_thread b =
     (case direct_threads 100 of
        Inl e \<Rightarrow> (False, b)
      | Inr threads \<Rightarrow>
          (case find_thread (target_user_id b) threads of
             None \<Rightarrow> (False, b)
           | Some t \<Rightarrow>
               (let b1 = b\<lparr>thread_id := Some (id_of t)\<rparr>
                in case direct_thread (id_of t) of
                     Inl e \<Rightarrow> (False, b1)
                   | Inr existing \<Rightarrow> (True, mark_existing existing b1))))"

text \<open>
  One turn of the loop of \<^verbatim>\<open>run\<close>, lines 246-251, without the sleep: the thread is
  resolved only while \<^verbatim>\<open>self.thread_id\<close> is false, and the messages are checked when it
  is true. The fetch made by the resolution and the fetch made by the check are two
  calls, which the platform may answer differently.
\<close>

definition run_iteration ::
  "(nat \<Rightarrow> exn + 'u direct_thread list) \<Rightarrow> (string \<Rightarrow> exn + ('u, 'm) message list) \<Rightarrow>
   (string \<Rightarrow> exn + ('u, 'm) message list) \<Rightarrow>
   ((string \<times> 'u option list) list \<Rightarrow> string \<Rightarrow> 'u option list \<Rightarrow> exn option) \<Rightarrow>
   ('m fset \<Rightarrow> 'm list) \<Rightarrow> int \<Rightarrow> ('u, 'm) bot \<Rightarrow>
   exn + (log_entry list \<times> ('u, 'm) bot)" where
  "run_iteration direct_threads direct_thread_resolve direct_thread_check direct_send set_list
       current_time b =
     (let b1 = (if no_thread_id b
                then snd (get_thread_id direct_threads direct_thread_resolve b) else b)
      in if no_thread_id b1 then Inr ([], b1)
         else check_and_respond direct_thread_check direct_send set_list current_time b1)"

section \<open>Login\<close>

text \<open>The calls \<^verbatim>\<open>login\<close> makes on the client and the console, in the order made.\<close>

datatype call = LoadSettings | Login | DumpSettings | Input | ChallengeCodeHandler

text \<open>
  What the world answers to \<^verbatim>\<open>login\<close>: whether \<^verbatim>\<open>session.json\<close> exists, and for each
  call site whether the call raises (\<open>Some e\<close>) or returns.
\<close>

record login_env =
  session_exists :: bool
  load_settings :: "exn option"
  session_login :: "exn option"
  fresh_login :: "exn option"
  dump_settings :: "exn option"
  input_code :: "exn + string"
  challenge_code_handler :: "exn option"
  challenge_dump_settings :: "exn option"

text \<open>
  Lines 47-55: \<open>Some True\<close> when the function returns from here, \<open>None\<close> when control
  goes on to the fresh login. The handler of line 54 takes every exception.
\<close>

definition session_attempt :: "login_env \<Rightarrow> bool option \<times> call list" where
  "session_attempt env =
     (if session_exists env then
        (case load_settings env of
           Some e \<Rightarrow> (None, [LoadSettings])
         | None \<Rightarrow>
             (case session_login env of
                Some e \<Rightarrow> (None, [LoadSettings, Login])
              | None \<Rightarrow> (Some True, [LoadSettings, Login])))
      else (None, []))"

text \<open>Lines 59-62, the statements the handler of line 63 guards.\<close>

definition fresh_body :: "login_env \<Rightarrow> (exn + bool) \<times> call list" where
  "fresh_body env =
     (case fresh_login env of
        Some e \<Rightarrow> (Inl e, [Login])
      | None \<Rightarrow>
          (case dump_settings env of
             Some e \<Rightarrow> (Inl e, [Login, DumpSettings])
           | None \<Rightarrow> (Inr True, [Login, DumpSettings])))"

text \<open>Lines 64-72, the handler of \<^verbatim>\<open>ChallengeRequired\<close>; what it raises leaves it.\<close>

definition challenge :: "login_env \<Rightarrow> (exn + bool) \<times> call list" where
  "challenge env =
     (case input_code env of
        Inl e \<Rightarrow> (Inl e, [Input])
      | Inr verification_code \<Rightarrow>
          (case challenge_code_handler env of
             Some e \<Rightarrow> (Inl e, [Input, ChallengeCodeHandler])
           | None \<Rightarrow>
               (case challenge_dump_settings env of
                  Some e \<Rightarrow> (Inl e, [Input, ChallengeCodeHandler, DumpSettings])
                | None \<Rightarrow> (Inr True, [Input, ChallengeCodeHandler, DumpSettings]))))"

text \<open>Lines 58-72.\<close>

definition fresh :: "login_env \<Rightarrow> (exn + bool) \<times> call list" where
  "fresh env =
     (case fresh_body env of
        (Inl (ChallengeRequired s), cs) \<Rightarrow> (fst (challenge env), cs @ snd (challenge env))
      | (r, cs) \<Rightarrow> (r, cs))"

text \<open>Lines 44-72, the statements the handlers of lines 74 and 78 guard.\<close>

definition login_body :: "login_env \<Rightarrow> (exn + bool) \<times> call list" where
  "login_body env =
     (case session_attempt env of
        (Some r, cs) \<Rightarrow> (Inr r, cs)
      | (None, cs) \<Rightarrow> (fst (fresh env), cs @ snd (fresh env)))"

text \<open>
  \<^verbatim>\<open>login\<close>: the outer handlers of lines 74 and 78 both return \<^verbatim>\<open>False\<close>; they differ in
  what they log.
\<close>

definition login :: "login_env \<Rightarrow> (exn + bool) \<times> call list" where
  "login env =
     (case login_body env of
        (Inl (ChallengeRequired s), cs) \<Rightarrow> (Inr False, cs)
      | (Inl e, cs) \<Rightarrow> (Inr False, cs)
      | (Inr r, cs) \<Rightarrow> (Inr r, cs))"

section \<open>The entry point\<close>

text \<open>\<^verbatim>\<open>os.getenv(key, default)\<close> on the environment as it is after \<^verbatim>\<open>load_dotenv()\<close>.\<close>

definition getenv_default :: "(string \<rightharpoonup> string) \<Rightarrow> string \<Rightarrow> string \<Rightarrow> string" where
  "getenv_default environ key dflt = (case environ key of None \<Rightarrow> dflt | Some v \<Rightarrow> v)"

text \<open>The truth value of the result of \<^verbatim>\<open>os.getenv(key)\<close>: \<^verbatim>\<open>None\<close> and \<^verbatim>\<open>''\<close> are false.\<close>

definition truthy :: "string option \<Rightarrow> bool" where
  "truthy v \<longleftrightarrow> v \<noteq> None \<and> v \<noteq> Some []"

text \<open>
  How \<^verbatim>\<open>main\<close> ends without an exception: the early return of line 277 with the two
  errors logged, or the call \<^verbatim>\<open>bot.run(check_interval=check_interval)\<close> on the bot built.
\<close>

datatype ('u, 'm) main_result = EarlyReturn "string list" | BotRun "('u, 'm) bot" int

text \<open>
  \<^verbatim>\<open>main\<close>. The builtin \<^verbatim>\<open>int\<close> is the parameter \<open>int_of\<close>. It is applied on line 271,
  before the required variables are validated, and nothing catches what it raises.
\<close>

definition main ::
  "(string \<Rightarrow> exn + int) \<Rightarrow> (string \<rightharpoonup> string) \<Rightarrow> exn + ('u, 'm) main_result" where
  "main int_of environ =
     (let username = environ ''YOUR_USERNAME'';
          password = environ ''YOUR_PASSWORD'';
          target_username = environ ''TARGET_USERNAME'';
          response_message = getenv_default environ ''RESPONSE_MESSAGE'' ''Thanks for your message!''
      in case int_of (getenv_default environ ''CHECK_INTERVAL'' ''10'') of
           Inl e \<Rightarrow> Inl e
         | Inr check_interval \<Rightarrow>
             (if \<not> (truthy username \<and> truthy password \<and> truthy target_username) then
                Inr (EarlyReturn
                  [''Missing required environment variables in .env file'',
                   ''Please set: YOUR_USERNAME, YOUR_PASSWORD, TARGET_USERNAME''])
              else
                Inr (BotRun
                  (init_bot (the username) (the password) (the target_username) response_message)
                  check_interval)))"

subsection \<open>Decimal literals\<close>

text \<open>
  The builtin \<^verbatim>\<open>int\<close> of CPython 3.11 with its default settings, on ASCII text in
  base 10. \<^verbatim>\<open>PyLong_FromString\<close> skips leading whitespace (the characters 9 to 13 and
  32), takes one optional sign, refuses a leading underscore, scans digits with single
  underscores between them, refuses more than 4300 digits, and accepts only whitespace
  after the digits.
\<close>

definition is_space :: "char \<Rightarrow> bool" where
  "is_space c \<longleftrightarrow> (let n = (of_char c :: nat) in n = 32 \<or> (9 \<le> n \<and> n \<le> 13))"

definition is_digit :: "char \<Rightarrow> bool" where
  "is_digit c \<longleftrightarrow> (let n = (of_char c :: nat) in 48 \<le> n \<and> n \<le> 57)"

text \<open>
  The scan of the digits: \<open>prev_underscore\<close> tells whether the character before was an
  underscore, \<open>count\<close> is the number of digits seen and \<open>acc\<close> their value. The result
  is \<open>None\<close> for two underscores in a row or an underscore at the end, and else the
  count, the value and the text left.
\<close>

fun scan_digits :: "bool \<Rightarrow> nat \<Rightarrow> nat \<Rightarrow> string \<Rightarrow> (nat \<times> nat \<times> string) option" where
  "scan_digits prev_underscore count acc [] =
     (if prev_underscore then None else Some (count, acc, []))"
| "scan_digits prev_underscore count acc (c # cs) =
     (if is_digit c then scan_digits False (Suc count) (10 * acc + (of_char c - 48)) cs
      else if c = CHR ''_'' then
        (if prev_underscore then None else scan_digits True count acc cs)
      else if prev_underscore then None
      else Some (count, acc, c # cs))"

text \<open>A natural number in decimal digits.\<close>

function str_of_nat :: "nat \<Rightarrow> string" where
  "str_of_nat n =
     (if n < 10 then [char_of (48 + n)]
      else str_of_nat (n div 10) @ [char_of (48 + n mod 10)])"
  by pat_completeness auto
termination
  by (relation "measure (\<lambda>n. n)") auto

text \<open>
  \<^verbatim>\<open>repr\<close> of an ASCII text: in single quotes, or in double quotes when the text has a
  single quote and no double quote; the quote character and the backslash are escaped,
  and so are the control characters.
\<close>

definition hex_digit :: "nat \<Rightarrow> char" where
  "hex_digit n = (if n < 10 then char_of (48 + n) else char_of (87 + n))"

definition repr_char :: "char \<Rightarrow> char \<Rightarrow> string" where
  "repr_char quote c =
     (let n = (of_char c :: nat) in
      if c = quote \<or> c = CHR 0x5C then [CHR 0x5C, c]
      else if n = 9 then [CHR 0x5C, CHR ''t'']
      else if n = 10 then [CHR 0x5C, CHR ''n'']
      else if n = 13 then [CHR 0x5C, CHR ''r'']
      else if n < 32 \<or> n = 127 then [CHR 0x5C, CHR ''x'', hex_digit (n div 16), hex_digit (n mod 16)]
      else [c])"

definition py_repr :: "string \<Rightarrow> string" where
  "py_repr s =
     (let quote = (if CHR 0x27 \<in> set s \<and> CHR 0x22 \<notin> set s then CHR 0x22 else CHR 0x27)
      in quote # concat (map (repr_char quote) s) @ [quote])"

text \<open>The two errors of the conversion; the first shows at most 200 characters of the text.\<close>

definition invalid_literal :: "string \<Rightarrow> exn" where
  "invalid_literal s =
     ValueError (''invalid literal for int() with base 10: '' @ take 200 (py_repr s))"

definition exceeds_limit :: "nat \<Rightarrow> exn" where
  "exceeds_limit count =
     ValueError (''Exceeds the limit (4300 digits) for integer string conversion: value has ''
       @ str_of_nat count
       @ '' digits; use sys.set_int_max_str_digits() to increase the limit'')"

definition py_int :: "string \<Rightarrow> exn + int" where
  "py_int s =
     (let t = dropWhile is_space s;
          negative = (t \<noteq> [] \<and> hd t = CHR ''-'');
          u = (if t \<noteq> [] \<and> (hd t = CHR ''+'' \<or> hd t = CHR ''-'') then tl t else t)
      in if u \<noteq> [] \<and> hd u = CHR ''_'' then Inl (invalid_literal s)
         else
           (case scan_digits False 0 0 u of
              None \<Rightarrow> Inl (invalid_literal s)
            | Some (count, acc, rest) \<Rightarrow>
                if count > 4300 then Inl (exceeds_limit count)
                else if count = 0 then Inl (invalid_literal s)
                else if dropWhile is_space rest \<noteq> [] then Inl (invalid_literal s)
                else Inr (if negative then - int acc else int acc)))"

section \<open>Example values\<close>

text \<open>
  A bot logged in as user 1 that watches user 7, a message with a naive timestamp, a
  platform whose sends return and one whose sends raise.
\<close>

definition example_bot :: "(nat, nat) bot" where
  "example_bot =
     \<lparr>username = ''me'', password = ''secret'', target_username = ''friend'',
      response_message = ''Thanks for your message!'',
      target_user_id = Some 7, thread_id = Some ''340282366841710300949128'',
      processed_messages = {||}, client_user_id = Some 1, client_sent = []\<rparr>"

definition example_message :: "nat \<Rightarrow> nat \<Rightarrow> int \<Rightarrow> (nat, nat) message" where
  "example_message i sender t =
     \<lparr>message_id = i, user_id = sender, text_of = ''hello'',
      timestamp = \<lparr>wall = t, tzinfo = None\<rparr>\<rparr>"

definition send_returns :: "(string \<times> nat option list) list \<Rightarrow> string \<Rightarrow> nat option list \<Rightarrow> exn option" where
  "send_returns sent txt recipients = None"

definition send_raises :: "(string \<times> nat option list) list \<Rightarrow> string \<Rightarrow> nat option list \<Rightarrow> exn option" where
  "send_raises sent txt recipients = Some (Exception ''feedback_required'')"

text \<open>
  A listing of four threads; the second and the third have user 7 among their users.
\<close>

definition example_threads :: "nat direct_thread list" where
  "example_threads =
     [\<lparr>id_of = ''17'', users = [3, 4]\<rparr>, \<lparr>id_of = ''23'', users = [7]\<rparr>,
      \<lparr>id_of = ''31'', users = [9, 7]\<rparr>, \<lparr>id_of = ''40'', users = [5]\<rparr>]"

text \<open>A session file that does not parse, with a platform that accepts the password.\<close>

definition corrupt_session :: login_env where
  "corrupt_session =
     \<lparr>session_exists = True,
      load_settings = Some (Exception ''Expecting value: line 1 column 1 (char 0)''),
      session_login = None, fresh_login = None, dump_settings = None,
      input_code = Inr ''123456'', challenge_code_handler = None,
      challenge_dump_settings = None\<rparr>"

section \<open>Auxiliary facts\<close>

text \<open>
  The loop over a concatenation: the second part runs from the state the first part
  leaves, unless the first part raised.
\<close>

lemma process_messages_append:
  "process_messages ds sl now b (xs @ ys) =
     (case process_messages ds sl now b xs of
        (Some e, b') \<Rightarrow> (Some e, b')
      | (None, b') \<Rightarrow> process_messages ds sl now b' ys)"
  by (induction xs arbitrary: b) (auto split: prod.splits sum.splits)

text \<open>
  Seeding adds the ids of the fetched messages and changes nothing else.
\<close>

lemma mark_existing_eq:
  "mark_existing ms b =
     b\<lparr>processed_messages := processed_messages b |\<union>| fset_of_list (map message_id ms)\<rparr>"
  by (induction ms arbitrary: b) (simp_all add: mark_processed_def)

text \<open>
  A cycle over messages that are all marked already changes nothing.
\<close>

lemma process_messages_all_seen:
  "\<forall>m \<in> set ms. message_id m |\<in>| processed_messages b \<Longrightarrow>
   process_messages ds sl now b ms = (None, b)"
  by (induction ms) (auto simp: process_message_def)

text \<open>
  A cycle over messages of the target that are all older than five minutes marks them
  and sends nothing.
\<close>

lemma stale_thread_no_send:
  "\<forall>m \<in> set ms. Some (user_id m) = target_user_id b \<and> older_than_5_minutes now (timestamp m) \<Longrightarrow>
   process_messages ds sl now b ms =
     (None, b\<lparr>processed_messages := processed_messages b |\<union>| fset_of_list (map message_id ms)\<rparr>)"
proof (induction ms arbitrary: b)
  case Nil
  then show ?case by simp
next
  case (Cons m ms)
  let ?b' = "b\<lparr>processed_messages := finsert (message_id m) (processed_messages b)\<rparr>"
  have step: "process_message ds sl now b m = (if message_id m |\<in>| processed_messages b then (Inr Ignore, b) else (Inr MarkSeenOnly, ?b'))"
    using Cons.prems by (simp add: process_message_def mark_processed_def)
  show ?case
  proof (cases "message_id m |\<in>| processed_messages b")
    case True
    have "finsert (message_id m) (processed_messages b |\<union>| fset_of_list (map message_id ms)) =
          processed_messages b |\<union>| fset_of_list (map message_id ms)"
      using True by auto
    then show ?thesis using step True Cons.IH[of b] Cons.prems by simp
  next
    case False
    have "\<forall>m \<in> set ms. Some (user_id m) = target_user_id ?b' \<and> older_than_5_minutes now (timestamp m)"
      using Cons.prems by simp
    from Cons.IH[OF this] show ?thesis using step False by simp
  qed
qed

text \<open>
  \<open>find_thread\<close> returns the first thread, in the order listed, that has the target
  among its users.
\<close>

lemma find_thread_first:
  "find_thread target threads = Some t \<longleftrightarrow>
   (\<exists>earlier later. threads = earlier @ t # later \<and>
      (\<exists>pk \<in> set (users t). Some pk = target) \<and>
      (\<forall>t' \<in> set earlier. \<forall>pk \<in> set (users t'). Some pk \<noteq> target))"
proof (induction threads)
  case Nil
  then show ?case by simp
next
  case (Cons a threads)
  show ?case
  proof (cases "list_ex (\<lambda>pk. Some pk = target) (users a)")
    case True
    then have hit: "\<exists>pk \<in> set (users a). Some pk = target" by (simp add: list_ex_iff)
    show ?thesis
    proof
      assume "find_thread target (a # threads) = Some t"
      with True have "t = a" by simp
      with hit have "a # threads = [] @ t # threads \<and> (\<exists>pk \<in> set (users t). Some pk = target) \<and>
         (\<forall>t' \<in> set []. \<forall>pk \<in> set (users t'). Some pk \<noteq> target)" by simp
      then show "\<exists>earlier later. a # threads = earlier @ t # later \<and>
      (\<exists>pk \<in> set (users t). Some pk = target) \<and>
      (\<forall>t' \<in> set earlier. \<forall>pk \<in> set (users t'). Some pk \<noteq> target)" by blast
    next
      assume "\<exists>earlier later. a # threads = earlier @ t # later \<and>
      (\<exists>pk \<in> set (users t). Some pk = target) \<and>
      (\<forall>t' \<in> set earlier. \<forall>pk \<in> set (users t'). Some pk \<noteq> target)"
      then obtain earlier later where e: "a # threads = earlier @ t # later"
        "\<forall>t' \<in> set earlier. \<forall>pk \<in> set (users t'). Some pk \<noteq> target" by blast
      have "earlier = []"
      proof (cases earlier)
        case Nil then show ?thesis .
      next
        case (Cons x xs)
        with e(1) have "x = a" by simp
        with Cons e(2) hit show ?thesis by auto
      qed
      with e(1) have "t = a" by simp
      with True show "find_thread target (a # threads) = Some t" by simp
    qed
  next
    case False
    then have miss: "\<forall>pk \<in> set (users a). Some pk \<noteq> target" by (simp add: list_ex_iff)
    show ?thesis
    proof
      assume "find_thread target (a # threads) = Some t"
      with False have "find_thread target threads = Some t" by simp
      with Cons.IH obtain earlier later where e: "threads = earlier @ t # later"
        "\<exists>pk \<in> set (users t). Some pk = target"
        "\<forall>t' \<in> set earlier. \<forall>pk \<in> set (users t'). Some pk \<noteq> target" by blast
      with miss have "a # threads = (a # earlier) @ t # later \<and> (\<exists>pk \<in> set (users t). Some pk = target) \<and>
         (\<forall>t' \<in> set (a # earlier). \<forall>pk \<in> set (users t'). Some pk \<noteq> target)" by simp
      then show "\<exists>earlier later. a # threads = earlier @ t # later \<and>
      (\<exists>pk \<in> set (users t). Some pk = target) \<and>
      (\<forall>t' \<in> set earlier. \<forall>pk \<in> set (users t'). Some pk \<noteq> target)" by blast
    next
      assume "\<exists>earlier later. a # threads = earlier @ t # later \<and>
      (\<exists>pk \<in> set (users t). Some pk = target) \<and>
      (\<forall>t' \<in> set earlier. \<forall>pk \<in> set (users t'). Some pk \<noteq> target)"
      then obtain earlier later where e: "a # threads = earlier @ t # later"
        "\<exists>pk \<in> set (users t). Some pk = target"
        "\<forall>t' \<in> set earlier. \<forall>pk \<in> set (users t'). Some pk \<noteq> target" by blast
      have "earlier \<noteq> []"
      proof
        assume "earlier = []"
        with e(1) have "t = a" by simp
        with e(2) miss show False by blast
      qed
      then obtain xs where xs: "earlier = a # xs" using e(1) by (cases earlier) auto
      with e have "threads = xs @ t # later \<and> (\<exists>pk \<in> set (users t). Some pk = target) \<and>
         (\<forall>t' \<in> set xs. \<forall>pk \<in> set (users t'). Some pk \<noteq> target)" by simp
      then have "find_thread target threads = Some t" using Cons.IH by blast
      with False show "find_thread target (a # threads) = Some t" by simp
    qed
  qed
qed

lemma fcard_fset_of_list_distinct: "distinct xs \<Longrightarrow> fcard (fset_of_list xs) = length xs"
  by (simp add: fcard.rep_eq fset_of_list.rep_eq distinct_card)

text \<open>
  When \<^verbatim>\<open>list(s)\<close> enumerates the set without repetition, the set after lines 213-215
  has at most 100 elements, all of them from the set before.
\<close>

lemma trim_bound:
  assumes "fset_of_list (set_list s) = s" and "distinct (set_list s)"
  shows "fcard (trim set_list s) \<le> 100 \<and> trim set_list s |\<subseteq>| s"
proof (cases "fcard s > 100")
  case False
  then show ?thesis by (simp add: trim_def)
next
  case True
  have d: "distinct (last_n 100 (set_list s))" using assms(2) by (simp add: last_n_def)
  have "fcard (fset_of_list (last_n 100 (set_list s))) = length (last_n 100 (set_list s))"
    using d by (rule fcard_fset_of_list_distinct)
  also have "\<dots> \<le> 100" by (simp add: last_n_def)
  finally have c: "fcard (fset_of_list (last_n 100 (set_list s))) \<le> 100" .
  have "set (last_n 100 (set_list s)) \<subseteq> set (set_list s)"
    by (simp add: last_n_def set_drop_subset)
  then have "fset_of_list (last_n 100 (set_list s)) |\<subseteq>| fset_of_list (set_list s)"
    by (rule fset_of_list_subset)
  with c True assms(1) show ?thesis by (simp add: trim_def)
qed

text \<open>
  Which 100 elements stay depends on the iteration order. With the ascending order, the
  reply to message 10 on a bot that has marked messages 11 to 110 inserts 10 and drops it
  again at once: the message just answered is not marked, and ten seconds later the same
  message is answered a second time.
\<close>

lemma trim_drops_newest:
  "process_message send_returns sorted_list_of_fset 10000000
     (example_bot\<lparr>processed_messages := fset_of_list [11..<111]\<rparr>) (example_message 10 7 0) =
   (Inr Reply, example_bot\<lparr>processed_messages := fset_of_list [11..<111],
                 client_sent := [(''Thanks for your message!'', [Some 7])]\<rparr>) \<and>
   process_message send_returns sorted_list_of_fset 20000000
     (example_bot\<lparr>processed_messages := fset_of_list [11..<111],
        client_sent := [(''Thanks for your message!'', [Some 7])]\<rparr>)
     (example_message 10 7 0) =
   (Inr Reply, example_bot\<lparr>processed_messages := fset_of_list [11..<111],
                 client_sent := [(''Thanks for your message!'', [Some 7]),
                                 (''Thanks for your message!'', [Some 7])]\<rparr>)"
proof -
  have n: "(10::nat) |\<notin>| fset_of_list [11..<111]"
    by (simp del: upt_rec_numeral add: fset_of_list_elem)
  have i: "finsert (10::nat) (fset_of_list [11..<111]) = fset_of_list [10..<111]"
    by (simp del: upt_rec_numeral add: upt_conv_Cons [of 10 111])
  have c: "fcard (fset_of_list [10..<111::nat]) = 101"
    by (simp del: upt_rec_numeral add: fcard_fset_of_list_distinct)
  have l: "sorted_list_of_fset (fset_of_list [10..<111::nat]) = [10..<111]"
    by (simp del: upt_rec_numeral add: sorted_list_of_fset.rep_eq fset_of_list.rep_eq)
  have t: "trim sorted_list_of_fset (fset_of_list [10..<111::nat]) = fset_of_list [11..<111]"
    by (simp del: upt_rec_numeral add: trim_def c l last_n_def)
  show ?thesis
    using n
    by (simp del: upt_rec_numeral
        add: i t process_message_def mark_processed_def example_bot_def
          example_message_def send_returns_def older_than_5_minutes_def time_diff_us_def
          utc_instant_def normalize_def)
qed

section \<open>The seen-set bound\<close>

text \<open>
  C1: the claim is that \<^verbatim>\<open>processed_messages\<close> never holds more than 100 ids after an
  insertion, and that a trim keeps the 100 ids inserted last. The code trims only after a
  reply (lines 213-215 are inside the reply branch; the two \<^verbatim>\<open>continue\<close> statements and
  the seeding loop skip them). On a bot that has marked 100 messages, a cycle that fetches
  one new message sent by the bot itself marks it without a reply and leaves 101 ids in
  the set.
\<close>

theorem seen_set_exceeds_cap:
  "fcard (processed_messages
       (example_bot\<lparr>processed_messages := fset_of_list [1000..<1100]\<rparr>)) = 100 \<and>
   check_and_respond (\<lambda>tid. Inr [example_message 1100 1 0]) send_returns sorted_list_of_fset
       10000000 (example_bot\<lparr>processed_messages := fset_of_list [1000..<1100]\<rparr>) =
     Inr ([], example_bot\<lparr>processed_messages :=
                finsert 1100 (fset_of_list [1000..<1100])\<rparr>) \<and>
   fcard (processed_messages
       (example_bot\<lparr>processed_messages := finsert 1100 (fset_of_list [1000..<1100])\<rparr>)) = 101"
proof -
  have n: "(1100::nat) |\<notin>| fset_of_list [1000..<1100]"
    by (simp del: upt_rec_numeral add: fset_of_list_elem)
  have c: "fcard (fset_of_list [1000..<1100::nat]) = 100"
    by (simp del: upt_rec_numeral add: fcard_fset_of_list_distinct)
  have c': "fcard (finsert (1100::nat) (fset_of_list [1000..<1100])) = 101"
    using n c by (simp del: upt_rec_numeral add: fcard_finsert_disjoint)
  show ?thesis
    using n
    by (simp del: upt_rec_numeral
        add: c c' check_and_respond_def no_thread_id_def process_message_def
          mark_processed_def example_bot_def example_message_def)
qed

section \<open>The response policy\<close>

text \<open>
  C2, as amended: a message of the target, who is not the logged-in user, that is at most
  300 seconds old and not marked, when \<^verbatim>\<open>direct_send\<close> returns, takes the Reply branch:
  exactly one send is appended, of the canned response to the target. When fewer than 100
  ids were marked before, the id is added and nothing else changes, and the body applied
  again to the same message, at any later time and whatever the platform does, is Ignore
  and changes nothing.
\<close>

theorem reply_once:
  assumes target: "Some (user_id m) = target_user_id b"
    and not_self: "Some (user_id m) \<noteq> client_user_id b"
    and recent: "\<not> older_than_5_minutes current_time (timestamp m)"
    and unseen: "message_id m |\<notin>| processed_messages b"
    and sent: "direct_send (client_sent b) (response_message b) [target_user_id b] = None"
  shows "fst (process_message direct_send set_list current_time b m) = Inr Reply \<and>
         client_sent (snd (process_message direct_send set_list current_time b m)) =
           client_sent b @ [(response_message b, [target_user_id b])] \<and>
         (fcard (processed_messages b) < 100 \<longrightarrow>
            snd (process_message direct_send set_list current_time b m) =
              b\<lparr>processed_messages := finsert (message_id m) (processed_messages b),
                client_sent := client_sent b @ [(response_message b, [target_user_id b])]\<rparr> \<and>
            process_message direct_send' set_list' current_time'
                (snd (process_message direct_send set_list current_time b m)) m =
              (Inr Ignore, snd (process_message direct_send set_list current_time b m)))"
proof -
  let ?b1 = "b\<lparr>client_sent := client_sent b @ [(response_message b, [target_user_id b])]\<rparr>"
  let ?s = "finsert (message_id m) (processed_messages b)"
  have step: "process_message direct_send set_list current_time b m =
      (Inr Reply, ?b1\<lparr>processed_messages := trim set_list ?s\<rparr>)"
    using assms by (simp add: process_message_def mark_processed_def Let_def)
  have small: "trim set_list ?s = ?s" if "fcard (processed_messages b) < 100"
  proof -
    have "fcard ?s = Suc (fcard (processed_messages b))"
      using unseen by (simp add: fcard_finsert_disjoint)
    with that show ?thesis by (simp add: trim_def)
  qed
  show ?thesis
  proof (intro conjI impI)
    show "fst (process_message direct_send set_list current_time b m) = Inr Reply"
      by (simp add: step)
    show "client_sent (snd (process_message direct_send set_list current_time b m)) =
           client_sent b @ [(response_message b, [target_user_id b])]"
      by (simp add: step)
  next
    assume lt: "fcard (processed_messages b) < 100"
    show "snd (process_message direct_send set_list current_time b m) =
              b\<lparr>processed_messages := finsert (message_id m) (processed_messages b),
                client_sent := client_sent b @ [(response_message b, [target_user_id b])]\<rparr>"
      by (simp add: step small[OF lt])
  next
    assume lt: "fcard (processed_messages b) < 100"
    have "message_id m |\<in>| processed_messages (snd (process_message direct_send set_list current_time b m))"
      by (simp add: step small[OF lt])
    then show "process_message direct_send' set_list' current_time'
                (snd (process_message direct_send set_list current_time b m)) m =
              (Inr Ignore, snd (process_message direct_send set_list current_time b m))"
      by (simp add: process_message_def)
  qed
qed

text \<open>
  The theorem at the example bot and a message of user 7 that is ten seconds old.
\<close>

theorem reply_once_witness:
  "Some (user_id (example_message 5 7 0)) = target_user_id example_bot \<and>
   Some (user_id (example_message 5 7 0)) \<noteq> client_user_id example_bot \<and>
   \<not> older_than_5_minutes 10000000 (timestamp (example_message 5 7 0)) \<and>
   message_id (example_message 5 7 0) |\<notin>| processed_messages example_bot \<and>
   fcard (processed_messages example_bot) < 100 \<and>
   process_message send_returns sorted_list_of_fset 10000000 example_bot
       (example_message 5 7 0) =
     (Inr Reply, example_bot\<lparr>processed_messages := {|5|},
                   client_sent := [(''Thanks for your message!'', [Some 7])]\<rparr>) \<and>
   process_message send_raises sorted_list_of_fset 20000000
       (example_bot\<lparr>processed_messages := {|5|},
          client_sent := [(''Thanks for your message!'', [Some 7])]\<rparr>)
       (example_message 5 7 0) =
     (Inr Ignore, example_bot\<lparr>processed_messages := {|5|},
                    client_sent := [(''Thanks for your message!'', [Some 7])]\<rparr>)"
proof -
  let ?r = "process_message send_returns sorted_list_of_fset 10000000 example_bot
       (example_message 5 7 0)"
  let ?b' = "example_bot\<lparr>processed_messages := {|5|},
                   client_sent := [(''Thanks for your message!'', [Some 7])]\<rparr>"
  have h: "Some (user_id (example_message 5 7 0)) = target_user_id example_bot"
    "Some (user_id (example_message 5 7 0)) \<noteq> client_user_id example_bot"
    "\<not> older_than_5_minutes 10000000 (timestamp (example_message 5 7 0))"
    "message_id (example_message 5 7 0) |\<notin>| processed_messages example_bot"
    "send_returns (client_sent example_bot) (response_message example_bot)
       [target_user_id example_bot] = None"
    "fcard (processed_messages example_bot) < 100"
    by (simp_all add: example_message_def example_bot_def send_returns_def fcard_fempty
        older_than_5_minutes_def time_diff_us_def utc_instant_def normalize_def)
  have v: "example_bot\<lparr>processed_messages :=
             finsert (message_id (example_message 5 7 0)) (processed_messages example_bot),
           client_sent := client_sent example_bot @
             [(response_message example_bot, [target_user_id example_bot])]\<rparr> = ?b'"
    by (simp add: example_message_def example_bot_def)
  from reply_once [where m = "example_message 5 7 0" and b = example_bot
      and direct_send = send_returns and set_list = sorted_list_of_fset
      and current_time = 10000000 and direct_send' = send_raises
      and set_list' = sorted_list_of_fset and current_time' = 20000000, OF h(1-5)] h(6)
  have c: "fst ?r = Inr Reply" "snd ?r = ?b'"
    "process_message send_raises sorted_list_of_fset 20000000 (snd ?r) (example_message 5 7 0) =
       (Inr Ignore, snd ?r)"
    unfolding v by blast+
  have "?r = (Inr Reply, ?b')" using c(1,2) by (simp add: prod_eq_iff)
  moreover have "process_message send_raises sorted_list_of_fset 20000000 ?b'
       (example_message 5 7 0) = (Inr Ignore, ?b')"
    using c(3) unfolding c(2) .
  ultimately show ?thesis using h by blast
qed

text \<open>
  The claim as stated fails: when the target is the logged-in user, the test of line 183
  comes first and the message is marked without a reply; and when \<^verbatim>\<open>direct_send\<close>
  raises, nothing is sent and the message is not marked.
\<close>

theorem reply_claim_counterexample:
  "Some (user_id (example_message 5 7 0)) = target_user_id (example_bot\<lparr>client_user_id := Some 7\<rparr>) \<and>
   \<not> older_than_5_minutes 10000000 (timestamp (example_message 5 7 0)) \<and>
   message_id (example_message 5 7 0) |\<notin>| processed_messages (example_bot\<lparr>client_user_id := Some 7\<rparr>) \<and>
   process_message send_returns sorted_list_of_fset 10000000
     (example_bot\<lparr>client_user_id := Some 7\<rparr>) (example_message 5 7 0) =
     (Inr MarkSeenOnly, example_bot\<lparr>client_user_id := Some 7, processed_messages := {|5|}\<rparr>) \<and>
   process_message send_raises sorted_list_of_fset 10000000 example_bot (example_message 5 7 0) =
     (Inl (Exception ''feedback_required''), example_bot)"
  by (simp add: process_message_def example_message_def example_bot_def mark_processed_def
      send_raises_def older_than_5_minutes_def time_diff_us_def utc_instant_def normalize_def)

text \<open>
  C3: a message whose id is already in \<^verbatim>\<open>processed_messages\<close> is skipped: the branch is
  Ignore and the bot is unchanged, so nothing is sent, whatever its sender and timestamp.
\<close>

theorem seen_message_ignored:
  "message_id m |\<in>| processed_messages b \<Longrightarrow>
   process_message direct_send set_list current_time b m = (Inr Ignore, b)"
  by (simp add: process_message_def)

text \<open>
  The theorem at a marked message of the target.
\<close>

theorem seen_message_ignored_witness:
  "process_message send_returns sorted_list_of_fset 1000
     (example_bot\<lparr>processed_messages := {|5|}\<rparr>) (example_message 5 7 0) =
   (Inr Ignore, example_bot\<lparr>processed_messages := {|5|}\<rparr>)"
  using seen_message_ignored [of "example_message 5 7 0"
      "example_bot\<lparr>processed_messages := {|5|}\<rparr>" send_returns sorted_list_of_fset 1000]
  by (simp add: example_message_def example_bot_def)

text \<open>
  C4, as amended: a message of the target that is more than 300 seconds old and not yet
  marked takes the MarkSeenOnly branch: its id is added and nothing else changes, so
  nothing is sent. When its id is marked already the branch is Ignore, again with no send.
  A cycle over messages that are all of this kind ends without an exception, has marked
  every one of them and has sent nothing.
\<close>

theorem stale_target_message:
  assumes target: "Some (user_id m) = target_user_id b"
    and old: "older_than_5_minutes current_time (timestamp m)"
  shows "process_message direct_send set_list current_time b m =
           (if message_id m |\<in>| processed_messages b then (Inr Ignore, b)
            else (Inr MarkSeenOnly,
                  b\<lparr>processed_messages := finsert (message_id m) (processed_messages b)\<rparr>)) \<and>
         ((\<forall>x \<in> set ms. Some (user_id x) = target_user_id b \<and>
                          older_than_5_minutes current_time (timestamp x)) \<longrightarrow>
            process_messages direct_send set_list current_time b ms =
              (None, b\<lparr>processed_messages :=
                         processed_messages b |\<union>| fset_of_list (map message_id ms)\<rparr>))"
  using assms stale_thread_no_send [of ms b current_time direct_send set_list]
  by (simp add: process_message_def mark_processed_def)

text \<open>
  The theorem at a message 301 seconds old, and at a thread of five such messages.
\<close>

theorem stale_target_message_witness:
  "process_message send_returns sorted_list_of_fset 301000000 example_bot
     (example_message 5 7 0) =
     (Inr MarkSeenOnly, example_bot\<lparr>processed_messages := {|5|}\<rparr>) \<and>
   process_messages send_returns sorted_list_of_fset 301000000 example_bot
     [example_message 1 7 0, example_message 2 7 0, example_message 3 7 0,
      example_message 4 7 0, example_message 5 7 0] =
     (None, example_bot\<lparr>processed_messages := {|1, 2, 3, 4, 5|}\<rparr>) \<and>
   client_sent (example_bot\<lparr>processed_messages := {|1, 2, 3, 4, 5|}\<rparr>) = []"
proof -
  have old: "older_than_5_minutes 301000000 (timestamp (example_message i 7 0))" for i
    by (simp add: example_message_def older_than_5_minutes_def time_diff_us_def
        utc_instant_def normalize_def)
  have tgt: "Some (user_id (example_message i 7 0)) = target_user_id example_bot" for i
    by (simp add: example_message_def example_bot_def)
  from stale_target_message [where m = "example_message 5 7 0" and b = example_bot
      and current_time = 301000000 and direct_send = send_returns
      and set_list = sorted_list_of_fset
      and ms = "[example_message 1 7 0, example_message 2 7 0, example_message 3 7 0,
        example_message 4 7 0, example_message 5 7 0]", OF tgt old] old tgt
  show ?thesis by (simp add: example_message_def example_bot_def)
qed

text \<open>
  The claim as stated fails for a message marked earlier: the branch is Ignore.
\<close>

theorem stale_seen_counterexample:
  "Some (user_id (example_message 5 7 0)) = target_user_id (example_bot\<lparr>processed_messages := {|5|}\<rparr>) \<and>
   older_than_5_minutes 301000000 (timestamp (example_message 5 7 0)) \<and>
   process_message send_returns sorted_list_of_fset 301000000
     (example_bot\<lparr>processed_messages := {|5|}\<rparr>) (example_message 5 7 0) =
     (Inr Ignore, example_bot\<lparr>processed_messages := {|5|}\<rparr>)"
  by (simp add: process_message_def example_message_def example_bot_def
      older_than_5_minutes_def time_diff_us_def utc_instant_def normalize_def)

text \<open>
  C5, as amended: a message sent by the logged-in user that is not yet marked takes the
  MarkSeenOnly branch, whatever its age: its id is added and nothing else changes, so
  nothing is sent. When its id is marked already, the test of line 179 comes first: the
  branch is Ignore and the bot is unchanged.
\<close>

theorem own_message_marked:
  "Some (user_id m) = client_user_id b \<Longrightarrow>
   process_message direct_send set_list current_time b m =
     (if message_id m |\<in>| processed_messages b then (Inr Ignore, b)
      else (Inr MarkSeenOnly, b\<lparr>processed_messages := finsert (message_id m) (processed_messages b)\<rparr>))"
  by (simp add: process_message_def mark_processed_def)

text \<open>
  The theorem at an unmarked message of the logged-in user.
\<close>

theorem own_message_marked_witness:
  "Some (user_id (example_message 5 1 0)) = client_user_id example_bot \<and>
   process_message send_returns sorted_list_of_fset 1000000 example_bot (example_message 5 1 0) =
     (Inr MarkSeenOnly, example_bot\<lparr>processed_messages := {|5|}\<rparr>)"
  using own_message_marked [of "example_message 5 1 0" example_bot send_returns
      sorted_list_of_fset 1000000]
  by (simp add: example_message_def example_bot_def)

text \<open>
  The claim as stated fails for a marked message of the logged-in user: the branch is
  Ignore, not MarkSeenOnly.
\<close>

theorem own_seen_counterexample:
  "Some (user_id (example_message 5 1 0)) = client_user_id (example_bot\<lparr>processed_messages := {|5|}\<rparr>) \<and>
   process_message send_returns sorted_list_of_fset 1000000
     (example_bot\<lparr>processed_messages := {|5|}\<rparr>) (example_message 5 1 0) =
     (Inr Ignore, example_bot\<lparr>processed_messages := {|5|}\<rparr>)"
  by (simp add: process_message_def example_message_def example_bot_def)

section \<open>Thread resolution and the seen-set\<close>

text \<open>
  When the listing returns, \<open>t\<close> is the first listed thread with the target among its
  users, and the fetch of its messages returns, \<^verbatim>\<open>get_thread_id\<close> returns \<^verbatim>\<open>True\<close>,
  has stored the thread's id and has added the id of every fetched message to
  \<^verbatim>\<open>processed_messages\<close>, changing nothing else.
\<close>

lemma get_thread_id_seeds:
  assumes threads: "direct_threads 100 = Inr (earlier @ t # later)"
    and earlier: "\<forall>t' \<in> set earlier. \<forall>pk \<in> set (users t'). Some pk \<noteq> target_user_id b"
    and target: "\<exists>pk \<in> set (users t). Some pk = target_user_id b"
    and fetched: "direct_thread (id_of t) = Inr existing"
  shows "get_thread_id direct_threads direct_thread b =
           (True, b\<lparr>thread_id := Some (id_of t),
                    processed_messages :=
                      processed_messages b |\<union>| fset_of_list (map message_id existing)\<rparr>)"
proof -
  have "find_thread (target_user_id b) (earlier @ t # later) = Some t"
    using earlier target find_thread_first [of "target_user_id b" "earlier @ t # later" t]
    by blast
  then show ?thesis
    using threads fetched by (simp add: get_thread_id_def mark_existing_eq)
qed

text \<open>
  C6: the claim is that a resolved thread has the ids of its existing messages in
  \<^verbatim>\<open>processed_messages\<close> before polling begins, so that none of them is answered. Line 141
  stores the thread's id before line 146 fetches the messages. When that fetch raises,
  \<^verbatim>\<open>get_thread_id\<close> returns \<^verbatim>\<open>False\<close> with the id of the first matching thread stored and
  nothing marked; the loop of \<^verbatim>\<open>run\<close> then does not resolve again, and the check
  answers a message of the target that is ten seconds old and was in the thread already.
\<close>

theorem unseeded_thread_answers_history:
  "get_thread_id (\<lambda>amount. Inr example_threads)
       (\<lambda>tid. Inl (Exception ''Read timed out''))
       (example_bot\<lparr>thread_id := None\<rparr>) =
     (False, example_bot\<lparr>thread_id := Some ''23''\<rparr>) \<and>
   run_iteration (\<lambda>amount. Inr example_threads)
       (\<lambda>tid. Inr [example_message 2 7 0]) (\<lambda>tid. Inr [example_message 2 7 0])
       send_returns sorted_list_of_fset 10000000
       (example_bot\<lparr>thread_id := Some ''23''\<rparr>) =
     Inr ([], example_bot\<lparr>thread_id := Some ''23'', processed_messages := {|2|},
                client_sent := [(''Thanks for your message!'', [Some 7])]\<rparr>)"
  by (simp add: get_thread_id_def run_iteration_def check_and_respond_def no_thread_id_def
      process_message_def mark_processed_def trim_def fcard_finsert_if fcard_fempty
      example_threads_def example_bot_def
      example_message_def send_returns_def older_than_5_minutes_def time_diff_us_def
      utc_instant_def normalize_def)

section \<open>Login returns\<close>

text \<open>
  C7: \<^verbatim>\<open>login\<close> returns a boolean for every answer of the world; no exception leaves
  it. When the session file exists and restoring it raises (at \<^verbatim>\<open>load_settings\<close> or at
  the \<^verbatim>\<open>login\<close> call that follows), the fresh login runs next, starting with a
  \<^verbatim>\<open>login\<close> call, and the result is \<^verbatim>\<open>True\<close> exactly when the fresh login succeeds.
\<close>

theorem login_returns:
  "(\<exists>ok. fst (login env) = Inr ok) \<and>
   (session_exists env \<and> (load_settings env \<noteq> None \<or> session_login env \<noteq> None) \<longrightarrow>
      fst (login env) = Inr (fst (fresh env) = Inr True) \<and>
      snd (login env) = snd (session_attempt env) @ snd (fresh env) \<and>
      hd (snd (fresh env)) = Login)"
proof (intro conjI impI)
  show "\<exists>ok. fst (login env) = Inr ok"
    by (auto simp: login_def split: prod.splits sum.splits exn.splits)
next
  assume a: "session_exists env \<and> (load_settings env \<noteq> None \<or> session_login env \<noteq> None)"
  then have att: "fst (session_attempt env) = None"
    by (auto simp: session_attempt_def split: option.splits)
  have fr: "\<exists>e. fst (fresh env) = Inl e \<or> fst (fresh env) = Inr True"
    by (auto simp: fresh_def fresh_body_def challenge_def split: prod.splits sum.splits exn.splits option.splits)
  have body: "login_body env = (fst (fresh env), snd (session_attempt env) @ snd (fresh env))"
    using att by (cases "session_attempt env") (auto simp: login_body_def)
  show "fst (login env) = Inr (fst (fresh env) = Inr True)"
    using fr by (auto simp: login_def body split: sum.splits exn.splits)
  show "snd (login env) = snd (session_attempt env) @ snd (fresh env)"
    by (auto simp: login_def body split: sum.splits exn.splits)
  show "hd (snd (fresh env)) = Login"
    by (auto simp: fresh_def fresh_body_def split: prod.splits sum.splits exn.splits option.splits)
qed

text \<open>
  The theorem at a session file that does not parse.
\<close>

theorem login_returns_witness:
  "session_exists corrupt_session \<and> load_settings corrupt_session \<noteq> None \<and>
   login corrupt_session = (Inr True, [LoadSettings, Login, DumpSettings])"
proof -
  have h: "session_exists corrupt_session \<and>
      (load_settings corrupt_session \<noteq> None \<or> session_login corrupt_session \<noteq> None)"
    by (simp add: corrupt_session_def)
  have f: "fresh corrupt_session = (Inr True, [Login, DumpSettings])"
    by (simp add: corrupt_session_def fresh_def fresh_body_def)
  have a: "session_attempt corrupt_session = (None, [LoadSettings])"
    by (simp add: corrupt_session_def session_attempt_def)
  from login_returns [of corrupt_session] h
  have "fst (login corrupt_session) = Inr (fst (fresh corrupt_session) = Inr True)"
    "snd (login corrupt_session) = snd (session_attempt corrupt_session) @ snd (fresh corrupt_session)"
    by blast+
  then have "fst (login corrupt_session) = Inr True"
    "snd (login corrupt_session) = [LoadSettings, Login, DumpSettings]"
    by (simp_all add: f a)
  then have "login corrupt_session = (Inr True, [LoadSettings, Login, DumpSettings])"
    by (simp add: prod_eq_iff)
  with h show ?thesis by (simp add: corrupt_session_def)
qed

section \<open>Configuration from the environment\<close>

text \<open>
  C8, as amended: the variables read are \<^verbatim>\<open>YOUR_USERNAME\<close>, \<^verbatim>\<open>YOUR_PASSWORD\<close> and
  \<^verbatim>\<open>TARGET_USERNAME\<close>. When \<^verbatim>\<open>CHECK_INTERVAL\<close> is absent or set to a text that \<^verbatim>\<open>int\<close>
  converts, to \<open>n\<close> say (the text is \<^verbatim>\<open>10\<close> when the variable is absent), \<^verbatim>\<open>main\<close>
  returns early with the two error lines when one of the three is absent or empty;
  otherwise it builds the bot from them, with the response text of \<^verbatim>\<open>RESPONSE_MESSAGE\<close>
  or, when that is absent, \<^verbatim>\<open>Thanks for your message!\<close>, and runs it with the check
  interval \<open>n\<close>, which is 10 when \<^verbatim>\<open>CHECK_INTERVAL\<close> is absent.
\<close>

theorem main_configuration:
  assumes interval: "int_of (getenv_default environ ''CHECK_INTERVAL'' ''10'') = Inr n"
  shows "(\<not> (truthy (environ ''YOUR_USERNAME'') \<and> truthy (environ ''YOUR_PASSWORD'') \<and>
             truthy (environ ''TARGET_USERNAME'')) \<longrightarrow>
            main int_of environ =
              Inr (EarlyReturn
                [''Missing required environment variables in .env file'',
                 ''Please set: YOUR_USERNAME, YOUR_PASSWORD, TARGET_USERNAME''])) \<and>
         (truthy (environ ''YOUR_USERNAME'') \<and> truthy (environ ''YOUR_PASSWORD'') \<and>
             truthy (environ ''TARGET_USERNAME'') \<longrightarrow>
            main int_of environ =
              Inr (BotRun
                (init_bot (the (environ ''YOUR_USERNAME'')) (the (environ ''YOUR_PASSWORD''))
                   (the (environ ''TARGET_USERNAME''))
                   (case environ ''RESPONSE_MESSAGE'' of
                      None \<Rightarrow> ''Thanks for your message!'' | Some r \<Rightarrow> r))
                n)) \<and>
         (environ ''CHECK_INTERVAL'' = None \<and> int_of ''10'' = Inr 10 \<longrightarrow> n = 10)"
  using assms by (auto simp: main_def getenv_default_def Let_def)

text \<open>
  The theorem at an environment without the password, at one with the three required
  variables only, and at one that also sets \<^verbatim>\<open>CHECK_INTERVAL=30\<close> and a response text.
\<close>

theorem main_configuration_witness:
  "py_int ''10'' = Inr 10 \<and> py_int ''30'' = Inr 30 \<and>
   main py_int [''YOUR_USERNAME'' \<mapsto> ''me'', ''TARGET_USERNAME'' \<mapsto> ''friend''] =
   (Inr (EarlyReturn
      [''Missing required environment variables in .env file'',
       ''Please set: YOUR_USERNAME, YOUR_PASSWORD, TARGET_USERNAME''])
      :: exn + (nat, nat) main_result) \<and>
   main py_int [''YOUR_USERNAME'' \<mapsto> ''me'', ''YOUR_PASSWORD'' \<mapsto> ''secret'',
      ''TARGET_USERNAME'' \<mapsto> ''friend''] =
   (Inr (BotRun (init_bot ''me'' ''secret'' ''friend'' ''Thanks for your message!'') 10)
      :: exn + (nat, nat) main_result) \<and>
   main py_int [''YOUR_USERNAME'' \<mapsto> ''me'', ''YOUR_PASSWORD'' \<mapsto> ''secret'',
      ''TARGET_USERNAME'' \<mapsto> ''friend'', ''CHECK_INTERVAL'' \<mapsto> ''30'',
      ''RESPONSE_MESSAGE'' \<mapsto> ''Back soon''] =
   (Inr (BotRun (init_bot ''me'' ''secret'' ''friend'' ''Back soon'') 30)
      :: exn + (nat, nat) main_result)"
proof -
  have ten: "py_int ''10'' = Inr 10"
    by (simp add: py_int_def is_space_def is_digit_def)
  have thirty: "py_int ''30'' = Inr 30"
    by (simp add: py_int_def is_space_def is_digit_def)
  have a1: "py_int (getenv_default
      [''YOUR_USERNAME'' \<mapsto> ''me'', ''TARGET_USERNAME'' \<mapsto> ''friend'']
      ''CHECK_INTERVAL'' ''10'') = Inr 10"
    using ten by (simp add: getenv_default_def)
  have a2: "py_int (getenv_default
      [''YOUR_USERNAME'' \<mapsto> ''me'', ''YOUR_PASSWORD'' \<mapsto> ''secret'',
       ''TARGET_USERNAME'' \<mapsto> ''friend'']
      ''CHECK_INTERVAL'' ''10'') = Inr 10"
    using ten by (simp add: getenv_default_def)
  have a3: "py_int (getenv_default
      [''YOUR_USERNAME'' \<mapsto> ''me'', ''YOUR_PASSWORD'' \<mapsto> ''secret'',
       ''TARGET_USERNAME'' \<mapsto> ''friend'', ''CHECK_INTERVAL'' \<mapsto> ''30'',
       ''RESPONSE_MESSAGE'' \<mapsto> ''Back soon'']
      ''CHECK_INTERVAL'' ''10'') = Inr 30"
    using thirty by (simp add: getenv_default_def)
  from main_configuration [where int_of = py_int and n = 10
      and environ = "[''YOUR_USERNAME'' \<mapsto> ''me'', ''TARGET_USERNAME'' \<mapsto> ''friend'']",
      OF a1]
    main_configuration [where int_of = py_int and n = 10
      and environ = "[''YOUR_USERNAME'' \<mapsto> ''me'', ''YOUR_PASSWORD'' \<mapsto> ''secret'',
        ''TARGET_USERNAME'' \<mapsto> ''friend'']", OF a2]
    main_configuration [where int_of = py_int and n = 30
      and environ = "[''YOUR_USERNAME'' \<mapsto> ''me'', ''YOUR_PASSWORD'' \<mapsto> ''secret'',
        ''TARGET_USERNAME'' \<mapsto> ''friend'', ''CHECK_INTERVAL'' \<mapsto> ''30'',
        ''RESPONSE_MESSAGE'' \<mapsto> ''Back soon'']", OF a3]
    ten thirty
  show ?thesis by (simp add: truthy_def)
qed

text \<open>
  The claim as stated fails twice. With \<^verbatim>\<open>USERNAME\<close>, \<^verbatim>\<open>PASSWORD\<close> and
  \<^verbatim>\<open>TARGET_USERNAME\<close> set, \<^verbatim>\<open>main\<close> returns early: it reads other names. And with every
  required variable absent and \<^verbatim>\<open>CHECK_INTERVAL=ten\<close>, \<^verbatim>\<open>main\<close> raises the
  \<^verbatim>\<open>ValueError\<close> of \<^verbatim>\<open>int\<close> instead of returning early.
\<close>

theorem main_claim_counterexample:
  "main py_int [''USERNAME'' \<mapsto> ''me'', ''PASSWORD'' \<mapsto> ''secret'',
      ''TARGET_USERNAME'' \<mapsto> ''friend''] =
   (Inr (EarlyReturn
      [''Missing required environment variables in .env file'',
       ''Please set: YOUR_USERNAME, YOUR_PASSWORD, TARGET_USERNAME''])
      :: exn + (nat, nat) main_result) \<and>
   main py_int [''CHECK_INTERVAL'' \<mapsto> ''ten''] =
   (Inl (ValueError (''invalid literal for int() with base 10: '' @
           [CHR 0x27] @ ''ten'' @ [CHR 0x27]))
      :: exn + (nat, nat) main_result)"
  by (simp add: main_def getenv_default_def truthy_def
      py_int_def is_space_def is_digit_def invalid_literal_def py_repr_def repr_char_def
      Let_def take_Cons')

section \<open>A send that raises\<close>

text \<open>
  C9: the fetched list is \<open>before @ m # rest\<close>, the messages of \<open>before\<close> are processed
  without an exception and leave the bot \<open>b1\<close>, and \<open>m\<close> is then due a reply for which
  \<^verbatim>\<open>direct_send\<close> raises \<open>e\<close>. Then the body leaves \<open>b1\<close> as it is, so the id of \<open>m\<close>
  is still unmarked and nothing is recorded as sent; \<^verbatim>\<open>check_and_respond\<close> returns, having
  logged \<open>e\<close>, with the bot \<open>b1\<close>, whatever \<open>rest\<close> is: the messages after \<open>m\<close> are
  not looked at.
\<close>

theorem send_failure_contained:
  assumes tid: "\<not> no_thread_id b"
    and fetched: "direct_thread (the (thread_id b)) = Inr (before @ m # rest)"
    and before: "process_messages direct_send set_list current_time b before = (None, b1)"
    and unseen: "message_id m |\<notin>| processed_messages b1"
    and not_self: "Some (user_id m) \<noteq> client_user_id b1"
    and target: "Some (user_id m) = target_user_id b1"
    and recent: "\<not> older_than_5_minutes current_time (timestamp m)"
    and raises: "direct_send (client_sent b1) (response_message b1) [target_user_id b1] = Some e"
  shows "process_message direct_send set_list current_time b1 m = (Inl e, b1) \<and>
         check_and_respond direct_thread direct_send set_list current_time b =
           Inr ([ErrorCheckingMessages e], b1)"
proof -
  have step: "process_message direct_send set_list current_time b1 m = (Inl e, b1)"
    using unseen not_self target recent raises by (simp add: process_message_def)
  have "process_messages direct_send set_list current_time b (before @ m # rest) = (Some e, b1)"
    by (simp add: process_messages_append before step)
  then show ?thesis using step tid fetched by (simp add: check_and_respond_def)
qed

text \<open>
  The theorem at a thread of three messages, the second of which is due a reply.
\<close>

theorem send_failure_contained_witness:
  "check_and_respond
     (\<lambda>tid. Inr [example_message 5 1 0, example_message 6 7 0, example_message 7 7 0])
     send_raises sorted_list_of_fset 10000000 example_bot =
   Inr ([ErrorCheckingMessages (Exception ''feedback_required'')],
        example_bot\<lparr>processed_messages := {|5|}\<rparr>) \<and>
   message_id (example_message 6 7 0) |\<notin>|
     processed_messages (example_bot\<lparr>processed_messages := {|5|}\<rparr>)"
proof -
  let ?b1 = "example_bot\<lparr>processed_messages := {|5|}\<rparr>"
  have h: "\<not> no_thread_id example_bot"
    "(\<lambda>tid. Inr [example_message 5 1 0, example_message 6 7 0, example_message 7 7 0])
       (the (thread_id example_bot)) =
     (Inr ([example_message 5 1 0] @ example_message 6 7 0 # [example_message 7 7 0])
       :: exn + (nat, nat) message list)"
    "process_messages send_raises sorted_list_of_fset 10000000 example_bot
       [example_message 5 1 0] = (None, ?b1)"
    "message_id (example_message 6 7 0) |\<notin>| processed_messages ?b1"
    "Some (user_id (example_message 6 7 0)) \<noteq> client_user_id ?b1"
    "Some (user_id (example_message 6 7 0)) = target_user_id ?b1"
    "\<not> older_than_5_minutes 10000000 (timestamp (example_message 6 7 0))"
    "send_raises (client_sent ?b1) (response_message ?b1) [target_user_id ?b1] =
       Some (Exception ''feedback_required'')"
    by (simp_all add: example_message_def example_bot_def send_raises_def no_thread_id_def
        process_message_def mark_processed_def
        older_than_5_minutes_def time_diff_us_def utc_instant_def normalize_def)
  from send_failure_contained [where b = example_bot and ?b1.0 = ?b1
      and m = "example_message 6 7 0" and before = "[example_message 5 1 0]"
      and rest = "[example_message 7 7 0]" and direct_send = send_raises
      and set_list = sorted_list_of_fset and current_time = 10000000
      and e = "Exception ''feedback_required''"
      and direct_thread = "\<lambda>tid. Inr [example_message 5 1 0, example_message 6 7 0,
        example_message 7 7 0]", OF h] h(4)
  show ?thesis by simp
qed

section \<open>A check interval that is not a number\<close>

text \<open>
  C10: when \<^verbatim>\<open>CHECK_INTERVAL\<close> is set to a text on which \<^verbatim>\<open>int\<close> raises, \<^verbatim>\<open>main\<close>
  raises that exception, whatever the other variables are: no bot is built and the early
  return with the two error lines is not taken.
\<close>

theorem invalid_check_interval_raises:
  "environ ''CHECK_INTERVAL'' = Some s \<Longrightarrow> int_of s = Inl e \<Longrightarrow> main int_of environ = Inl e"
  by (simp add: main_def getenv_default_def)

text \<open>
  The theorem at \<^verbatim>\<open>CHECK_INTERVAL=ten\<close> with the required variables set.
\<close>

theorem invalid_check_interval_raises_witness:
  "main py_int [''CHECK_INTERVAL'' \<mapsto> ''ten'', ''YOUR_USERNAME'' \<mapsto> ''me'',
      ''YOUR_PASSWORD'' \<mapsto> ''secret'', ''TARGET_USERNAME'' \<mapsto> ''friend''] =
   (Inl (ValueError (''invalid literal for int() with base 10: '' @
           [CHR 0x27] @ ''ten'' @ [CHR 0x27]))
      :: exn + (nat, nat) main_result)"
proof -
  have p: "py_int ''ten'' =
      Inl (ValueError (''invalid literal for int() with base 10: '' @
             [CHR 0x27] @ ''ten'' @ [CHR 0x27]))"
    by (simp add: py_int_def is_space_def is_digit_def invalid_literal_def py_repr_def
        repr_char_def Let_def take_Cons')
  have g: "[''CHECK_INTERVAL'' \<mapsto> ''ten'', ''YOUR_USERNAME'' \<mapsto> ''me'',
      ''YOUR_PASSWORD'' \<mapsto> ''secret'', ''TARGET_USERNAME'' \<mapsto> ''friend''] ''CHECK_INTERVAL'' =
      Some ''ten''"
    by simp
  from invalid_check_interval_raises [where int_of = py_int and s = "''ten''"
      and environ = "[''CHECK_INTERVAL'' \<mapsto> ''ten'', ''YOUR_USERNAME'' \<mapsto> ''me'',
        ''YOUR_PASSWORD'' \<mapsto> ''secret'', ''TARGET_USERNAME'' \<mapsto> ''friend'']", OF g p]
  show ?thesis .
qed

end
